theory Spec2Isabelle
  imports Complex_Main "HOL-Library.Sublist"
begin

section \<open>Strings as the controller uses them\<close>

text \<open>
  A JavaScript string is modelled as a \<^typ>\<open>string\<close> whose characters are the code units
  U+0000 .. U+00FF. In that range the white space of \<^verbatim>\<open>String.prototype.trim\<close> and of
  the regular expression classes \<^verbatim>\<open>\s\<close> / \<^verbatim>\<open>\S\<close> is TAB, LF, VT, FF, CR, SPACE and
  NBSP, and \<^verbatim>\<open>toLowerCase\<close> moves A-Z and the Latin-1 capitals (all of U+00C0 .. U+00DE
  but the multiplication sign U+00D7) up by 32.
\<close>

definition is_space :: "char \<Rightarrow> bool" where
  "is_space c = (of_char c \<in> {9, 10, 11, 12, 13, 32, 160 :: nat})"

definition lower_char :: "char \<Rightarrow> char" where
  "lower_char c =
     (let n = (of_char c :: nat) in
      if (65 \<le> n \<and> n \<le> 90) \<or> (192 \<le> n \<and> n \<le> 222 \<and> n \<noteq> 215)
      then char_of (n + 32) else c)"

definition trim :: "string \<Rightarrow> string" where
  "trim s = rev (dropWhile is_space (rev (dropWhile is_space s)))"

definition toLowerCase :: "string \<Rightarrow> string" where
  "toLowerCase s = map lower_char s"

text \<open>
  A field of \<^verbatim>\<open>req.body\<close> is a string or absent (\<^verbatim>\<open>undefined\<close>): \<^typ>\<open>string option\<close>.
  \<open>truthy\<close> is JavaScript's truthiness on such a value and \<open>or_empty\<close> is \<^verbatim>\<open>x || ""\<close>.
\<close>

definition truthy :: "string option \<Rightarrow> bool" where
  "truthy x = (case x of None \<Rightarrow> False | Some s \<Rightarrow> s \<noteq> [])"

definition or_empty :: "string option \<Rightarrow> string" where
  "or_empty x = (case x of None \<Rightarrow> [] | Some s \<Rightarrow> s)"

text \<open>\<^verbatim>\<open>const normalizeEmail = (e = "") => e.trim().toLowerCase();\<close>\<close>

definition normalizeEmail :: "string option \<Rightarrow> string" where
  "normalizeEmail e = toLowerCase (trim (case e of None \<Rightarrow> [] | Some s \<Rightarrow> s))"

text \<open>
  The login handler is modelled on every value a JSON body can put in a field: absent
  (\<^verbatim>\<open>undefined\<close>), \<^verbatim>\<open>null\<close>, a boolean, a number, a string, or an array or object
  (\<open>VObj\<close>; the handler only asks for its truthiness and its type). Of a number the handler
  only asks whether it is zero, so a fraction behaves as any non-zero integer.
\<close>

datatype jsval = VUndefined | VNull | VBool bool | VNum int | VStr string | VObj

definition js_truthy :: "jsval \<Rightarrow> bool" where
  "js_truthy v =
     (case v of VUndefined \<Rightarrow> False | VNull \<Rightarrow> False | VBool b \<Rightarrow> b
              | VNum n \<Rightarrow> n \<noteq> 0 | VStr s \<Rightarrow> s \<noteq> [] | VObj \<Rightarrow> True)"

definition js_typeof :: "jsval \<Rightarrow> string" where
  "js_typeof v =
     (case v of VUndefined \<Rightarrow> ''undefined'' | VNull \<Rightarrow> ''object'' | VBool b \<Rightarrow> ''boolean''
              | VNum n \<Rightarrow> ''number'' | VStr s \<Rightarrow> ''string'' | VObj \<Rightarrow> ''object'')"

text \<open>\<^verbatim>\<open>x || ""\<close> on such a value.\<close>

definition js_or_empty :: "jsval \<Rightarrow> jsval" where
  "js_or_empty v = (if js_truthy v then v else VStr [])"

text \<open>
  The regular expression \<^verbatim>\<open>/^\S+@\S+\.\S+$/\<close>, as a backtracking matcher:
  \<open>nonspace_plus k s\<close> matches \<^verbatim>\<open>\S+\<close> at the front of \<open>s\<close> and hands every possible rest
  to the continuation \<open>k\<close>.
\<close>

fun nonspace_plus :: "(string \<Rightarrow> bool) \<Rightarrow> string \<Rightarrow> bool" where
  "nonspace_plus k [] = False"
| "nonspace_plus k (c # cs) = (\<not> is_space c \<and> (k cs \<or> nonspace_plus k cs))"

definition literal_then :: "char \<Rightarrow> (string \<Rightarrow> bool) \<Rightarrow> string \<Rightarrow> bool" where
  "literal_then a k s = (case s of [] \<Rightarrow> False | c # cs \<Rightarrow> c = a \<and> k cs)"

definition email_regex :: "string \<Rightarrow> bool" where
  "email_regex s =
     nonspace_plus (literal_then CHR ''@''
       (nonspace_plus (literal_then CHR ''.''
         (nonspace_plus (\<lambda>r. r = []))))) s"

text \<open>\<^verbatim>\<open>String.prototype.includes\<close>.\<close>

fun str_includes :: "string \<Rightarrow> string \<Rightarrow> bool" where
  "str_includes [] sub = (sub = [])"
| "str_includes (c # cs) sub = (prefix sub (c # cs) \<or> str_includes cs sub)"

section \<open>Environment, library values and the user store\<close>

record env =
  JWT_SECRET :: "string option"
  ADMIN_INVITE_TOKEN :: "string option"

text \<open>
  The two libraries are modelled symbolically. bcrypt reads of a password the first 72 bytes
  of the endless repetition of its UTF-8 bytes followed by a zero byte (\<open>bcrypt_key\<close>): a
  hash records the salt and these bytes, and \<^verbatim>\<open>bcrypt.compare\<close> succeeds exactly on the
  passwords with the same bytes.
  A token records the payload \<^verbatim>\<open>{ id }\<close>, the signing key and the \<^verbatim>\<open>expiresIn\<close> option.
  The salt of \<^verbatim>\<open>bcrypt.genSalt(10)\<close> is random: it is an input of the operations below.
\<close>

definition utf8 :: "string \<Rightarrow> string" where
  "utf8 s = concat (map (\<lambda>c. let n = (of_char c :: nat) in
                              if n < 128 then [c]
                              else [char_of (192 + n div 64), char_of (128 + n mod 64)]) s)"

definition bcrypt_key :: "string \<Rightarrow> string" where
  "bcrypt_key pw = take 72 (concat (replicate 72 (utf8 pw @ [CHR 0x00])))"

datatype pwhash = Bcrypt nat string

definition bcrypt_hash :: "string \<Rightarrow> nat \<Rightarrow> pwhash" where
  "bcrypt_hash pw salt = Bcrypt salt (bcrypt_key pw)"

definition bcrypt_compare :: "string \<Rightarrow> pwhash \<Rightarrow> bool" where
  "bcrypt_compare pw h = (case h of Bcrypt salt k \<Rightarrow> k = bcrypt_key pw)"

datatype jwt = Jwt (jwt_id: nat) (jwt_key: string) (jwt_expiresIn: string)

record user =
  uid :: nat
  name :: string
  email :: string
  password :: pwhash
  profileImageUrl :: string
  role :: string

type_synonym db = "user list"

text \<open>What a \<^verbatim>\<open>catch (err)\<close> block reads of a thrown error.\<close>

datatype exn = Exn (err_code: "nat option") (err_name: string) (err_message: string)

definition duplicate_key :: exn where
  "duplicate_key = Exn (Some 11000) ''MongoServerError'' ''E11000 duplicate key error''"

text \<open>
  Modelled from the spec: the Mongoose model \<^verbatim>\<open>models/User.js\<close> is not among the sources.
  The spec's data model gives a user an identifier, name, email, password hash, role and
  profile image reference, with "email uniqueness enforced at write time"; the controller
  itself expects the store's duplicate-key error 11000. The store is the list of user
  documents in insertion order; \<open>create\<close> gives the document a fresh identifier;
  \<open>create\<close> and \<open>save\<close> refuse an email another document already holds.
\<close>

definition exists_email :: "db \<Rightarrow> string \<Rightarrow> bool" where
  "exists_email d e = list_ex (\<lambda>u. email u = e) d"

definition exists_other :: "db \<Rightarrow> nat \<Rightarrow> string \<Rightarrow> bool" where
  "exists_other d i e = list_ex (\<lambda>u. uid u \<noteq> i \<and> email u = e) d"

definition findOne :: "db \<Rightarrow> string \<Rightarrow> user option" where
  "findOne d e = find (\<lambda>u. email u = e) d"

definition findById :: "db \<Rightarrow> nat \<Rightarrow> user option" where
  "findById d i = find (\<lambda>u. uid u = i) d"

definition new_id :: "db \<Rightarrow> nat" where
  "new_id d = foldr (\<lambda>u m. max (Suc (uid u)) m) d 0"

definition create :: "db \<Rightarrow> string \<Rightarrow> string \<Rightarrow> pwhash \<Rightarrow> string \<Rightarrow> string
    \<Rightarrow> exn + (db \<times> user)" where
  "create d n e h img r =
     (if exists_email d e then Inl duplicate_key
      else let u = \<lparr>uid = new_id d, name = n, email = e, password = h,
                     profileImageUrl = img, role = r\<rparr>
           in Inr (d @ [u], u))"

definition save :: "db \<Rightarrow> user \<Rightarrow> exn + (db \<times> user)" where
  "save d u =
     (if exists_other d (uid u) (email u) then Inl duplicate_key
      else Inr (map (\<lambda>v. if uid v = uid u then u else v) d, u))"

section \<open>Responses\<close>

datatype json = JStr string | JId nat | JTok jwt | JHash pwhash

record response =
  status :: nat
  body :: "(string \<times> json) list"

definition fail :: "nat \<Rightarrow> string \<Rightarrow> string \<Rightarrow> response" where
  "fail st c m = \<lparr>status = st, body = [(''code'', JStr c), (''message'', JStr m)]\<rparr>"

section \<open>Helpers of the controller\<close>

definition hasJwtSecret :: "env \<Rightarrow> bool" where
  "hasJwtSecret ev = truthy (JWT_SECRET ev)"

definition generateToken :: "env \<Rightarrow> nat \<Rightarrow> exn + jwt" where
  "generateToken ev userId =
     (if \<not> hasJwtSecret ev then Inl (Exn None ''Error'' ''JWT_SECRET not set'')
      else Inr (Jwt userId (or_empty (JWT_SECRET ev)) ''7d''))"

definition sendUser :: "env \<Rightarrow> user \<Rightarrow> exn + (string \<times> json) list" where
  "sendUser ev u =
     (case generateToken ev (uid u) of
        Inl e \<Rightarrow> Inl e
      | Inr t \<Rightarrow> Inr [(''_id'', JId (uid u)),
                     (''name'', JStr (name u)),
                     (''email'', JStr (email u)),
                     (''role'', JStr (role u)),
                     (''profileImageUrl'', JStr (profileImageUrl u)),
                     (''token'', JTok t)])"

section \<open>registerUser\<close>

record register_body =
  r_name :: "string option"
  r_email :: "string option"
  r_password :: "string option"
  r_profileImageUrl :: "string option"
  r_adminInviteToken :: "string option"

definition registerUser_try :: "env \<Rightarrow> nat \<Rightarrow> db \<Rightarrow> register_body \<Rightarrow> db \<times> (exn + response)" where
  "registerUser_try ev salt d req =
     (let nm = trim (or_empty (r_name req));
          em = normalizeEmail (r_email req);
          pw = or_empty (r_password req);
          tok = r_adminInviteToken req
      in if nm = [] \<or> em = [] \<or> pw = [] then
           (d, Inr (fail 400 ''MISSING_FIELDS'' ''Name, email and password are required''))
         else if \<not> email_regex em then
           (d, Inr (fail 400 ''BAD_EMAIL'' ''Email format is invalid''))
         else if length pw < 6 then
           (d, Inr (fail 400 ''WEAK_PASSWORD'' ''Password must be at least 6 characters''))
         else if truthy tok \<and> tok \<noteq> ADMIN_INVITE_TOKEN ev then
           (d, Inr (fail 403 ''BAD_INVITE'' ''Invalid admin invite token''))
         else if exists_email d em then
           (d, Inr (fail 409 ''DUP_EMAIL'' ''Email already registered''))
         else
           let hashedPassword = bcrypt_hash pw salt;
               rl = (if truthy tok \<and> tok = ADMIN_INVITE_TOKEN ev then ''admin'' else ''member'')
           in case create d nm em hashedPassword (or_empty (r_profileImageUrl req)) rl of
                Inl e \<Rightarrow> (d, Inl e)
              | Inr (d', u) \<Rightarrow>
                  (case sendUser ev u of
                     Inl e \<Rightarrow> (d', Inl e)
                   | Inr b \<Rightarrow> (d', Inr \<lparr>status = 201, body = b\<rparr>)))"

definition registerUser_catch :: "exn \<Rightarrow> response" where
  "registerUser_catch err =
     (if err_code err = Some 11000 then
        fail 409 ''DUP_EMAIL'' ''Email already registered''
      else if err_name err = ''ValidationError'' then
        fail 400 ''VALIDATION'' (err_message err)
      else if err_message err \<noteq> [] \<and> str_includes (err_message err) ''JWT_SECRET'' then
        fail 500 ''NO_JWT_SECRET'' ''Server misconfigured: JWT_SECRET not set''
      else fail 500 ''SERVER'' ''Server error'')"

definition registerUser :: "env \<Rightarrow> nat \<Rightarrow> db \<Rightarrow> register_body \<Rightarrow> db \<times> response" where
  "registerUser ev salt d req =
     (case registerUser_try ev salt d req of
        (d', Inl err) \<Rightarrow> (d', registerUser_catch err)
      | (d', Inr res) \<Rightarrow> (d', res))"

section \<open>loginUser\<close>

record login_body =
  l_email :: jsval
  l_password :: jsval

text \<open>
  The call \<^verbatim>\<open>normalizeEmail(req.body.email)\<close>: the default parameter replaces
  \<^verbatim>\<open>undefined\<close> only, and a value that is not a string has no \<^verbatim>\<open>trim\<close> method, so the
  call throws a TypeError (the message is the engine's; the catch block only asks whether it
  contains JWT_SECRET).
\<close>

definition normalizeEmail_call :: "jsval \<Rightarrow> exn + string" where
  "normalizeEmail_call v =
     (case v of
        VUndefined \<Rightarrow> Inr (normalizeEmail None)
      | VStr s \<Rightarrow> Inr (normalizeEmail (Some s))
      | VNull \<Rightarrow> Inl (Exn None ''TypeError'' ''Cannot read properties of null'')
      | VBool b \<Rightarrow> Inl (Exn None ''TypeError'' ''e.trim is not a function'')
      | VNum n \<Rightarrow> Inl (Exn None ''TypeError'' ''e.trim is not a function'')
      | VObj \<Rightarrow> Inl (Exn None ''TypeError'' ''e.trim is not a function''))"

text \<open>
  The call \<^verbatim>\<open>bcrypt.compare(password, user.password)\<close>: bcryptjs rejects an argument that
  is not a string with the error "Illegal arguments: " and the two types.
\<close>

definition bcrypt_compare_call :: "jsval \<Rightarrow> pwhash \<Rightarrow> exn + bool" where
  "bcrypt_compare_call v h =
     (case v of
        VStr s \<Rightarrow> Inr (bcrypt_compare s h)
      | _ \<Rightarrow> Inl (Exn None ''Error'' (''Illegal arguments: '' @ js_typeof v @ '', string'')))"

definition loginUser_try :: "env \<Rightarrow> db \<Rightarrow> login_body \<Rightarrow> exn + response" where
  "loginUser_try ev d req =
     (case normalizeEmail_call (l_email req) of
        Inl e \<Rightarrow> Inl e
      | Inr em \<Rightarrow>
          let pw = js_or_empty (l_password req)
          in if em = [] \<or> \<not> js_truthy pw then
               Inr (fail 400 ''MISSING_FIELDS'' ''Email and password are required'')
             else case findOne d em of
                    None \<Rightarrow> Inr (fail 401 ''BAD_CREDENTIALS'' ''Invalid email or password'')
                  | Some u \<Rightarrow>
                      (case bcrypt_compare_call pw (password u) of
                         Inl e \<Rightarrow> Inl e
                       | Inr isMatch \<Rightarrow>
                           if \<not> isMatch then
                             Inr (fail 401 ''BAD_CREDENTIALS'' ''Invalid email or password'')
                           else case sendUser ev u of
                                  Inl e \<Rightarrow> Inl e
                                | Inr b \<Rightarrow> Inr \<lparr>status = 200, body = b\<rparr>))"

definition loginUser_catch :: "exn \<Rightarrow> response" where
  "loginUser_catch err =
     (if err_message err \<noteq> [] \<and> str_includes (err_message err) ''JWT_SECRET'' then
        fail 500 ''NO_JWT_SECRET'' ''Server misconfigured: JWT_SECRET not set''
      else fail 500 ''SERVER'' ''Server error'')"

definition loginUser :: "env \<Rightarrow> db \<Rightarrow> login_body \<Rightarrow> response" where
  "loginUser ev d req =
     (case loginUser_try ev d req of Inl err \<Rightarrow> loginUser_catch err | Inr res \<Rightarrow> res)"

section \<open>updateUserProfile\<close>

record update_body =
  u_name :: "string option"
  u_email :: "string option"
  u_profileImageUrl :: "string option"
  u_password :: "string option"

text \<open>
  The assignments to the in-memory document, in the order of the source. The document
  reaches the store only through \<open>save\<close>.
\<close>

definition assign_name :: "update_body \<Rightarrow> user \<Rightarrow> user" where
  "assign_name req u = (if truthy (u_name req) then u\<lparr>name := trim (or_empty (u_name req))\<rparr> else u)"

definition assign_email :: "update_body \<Rightarrow> user \<Rightarrow> user" where
  "assign_email req u = (if truthy (u_email req) then u\<lparr>email := normalizeEmail (u_email req)\<rparr> else u)"

definition assign_image :: "update_body \<Rightarrow> user \<Rightarrow> user" where
  "assign_image req u =
     (case u_profileImageUrl req of None \<Rightarrow> u | Some img \<Rightarrow> u\<lparr>profileImageUrl := img\<rparr>)"

definition assign_password :: "nat \<Rightarrow> update_body \<Rightarrow> user \<Rightarrow> user" where
  "assign_password salt req u =
     (if truthy (u_password req)
      then u\<lparr>password := bcrypt_hash (or_empty (u_password req)) salt\<rparr> else u)"

definition updateUserProfile_try :: "env \<Rightarrow> nat \<Rightarrow> db \<Rightarrow> nat \<Rightarrow> update_body
    \<Rightarrow> db \<times> (exn + response)" where
  "updateUserProfile_try ev salt d i req =
     (case findById d i of
        None \<Rightarrow> (d, Inr (fail 404 ''NOT_FOUND'' ''User not found''))
      | Some u0 \<Rightarrow>
          let u3 = assign_image req (assign_email req (assign_name req u0)) in
          if truthy (u_password req) \<and> length (or_empty (u_password req)) < 6 then
            (d, Inr (fail 400 ''WEAK_PASSWORD'' ''Password must be at least 6 characters''))
          else
            let u4 = assign_password salt req u3 in
            if truthy (u_email req) \<and> exists_other d (uid u4) (email u4) then
              (d, Inr (fail 409 ''DUP_EMAIL'' ''Email already registered''))
            else case save d u4 of
                   Inl e \<Rightarrow> (d, Inl e)
                 | Inr (d', updated) \<Rightarrow>
                     (case sendUser ev updated of
                        Inl e \<Rightarrow> (d', Inl e)
                      | Inr b \<Rightarrow> (d', Inr \<lparr>status = 200, body = b\<rparr>)))"

definition updateUserProfile_catch :: "exn \<Rightarrow> response" where
  "updateUserProfile_catch err =
     (if err_code err = Some 11000 then
        fail 409 ''DUP_EMAIL'' ''Email already registered''
      else fail 500 ''SERVER'' ''Server error'')"

definition updateUserProfile :: "env \<Rightarrow> nat \<Rightarrow> db \<Rightarrow> nat \<Rightarrow> update_body \<Rightarrow> db \<times> response" where
  "updateUserProfile ev salt d i req =
     (case updateUserProfile_try ev salt d i req of
        (d', Inl err) \<Rightarrow> (d', updateUserProfile_catch err)
      | (d', Inr res) \<Rightarrow> (d', res))"

section \<open>Checklist progress\<close>

text \<open>
  Modelled from the spec: the task controller that computes a task's progress is not among
  the sources. The spec's data model says: "progress = (count of done checklist items /
  total checklist items) \<times> 100, rounded; 0 when no checklist items", a checklist item being
  a text with a done flag. The percentage is computed here in integer arithmetic, a half
  rounding up.
\<close>

record checklist_item =
  item_text :: string
  item_done :: bool

definition done_count :: "checklist_item list \<Rightarrow> nat" where
  "done_count items = length (filter item_done items)"

definition progress :: "checklist_item list \<Rightarrow> nat" where
  "progress items =
     (let total = length items; d = done_count items
      in if total = 0 then 0 else (200 * d + total) div (2 * total))"

section \<open>An invariant of the store\<close>

text \<open>
  Every stored email is in the form \<open>normalizeEmail\<close> produces. The empty store has the
  property, and \<open>registerUser\<close> and \<open>updateUserProfile\<close>, the only writers, keep it
  (lemmas \<open>registerUser_emails_normalized\<close> and \<open>updateUserProfile_emails_normalized\<close>).
\<close>

definition emails_normalized :: "db \<Rightarrow> bool" where
  "emails_normalized d = list_all (\<lambda>u. normalizeEmail (Some (email u)) = email u) d"

section \<open>What the catch blocks answer\<close>

lemma status_fail [simp]: "status (fail st c m) = st"
  by (simp add: fail_def)

lemma body_fail [simp]: "body (fail st c m) = [(''code'', JStr c), (''message'', JStr m)]"
  by (simp add: fail_def)

lemma registerUser_catch_jwt:
  "registerUser_catch (Exn None ''Error'' ''JWT_SECRET not set'') =
     fail 500 ''NO_JWT_SECRET'' ''Server misconfigured: JWT_SECRET not set''"
  by (simp add: registerUser_catch_def)

lemma loginUser_catch_jwt:
  "loginUser_catch (Exn None ''Error'' ''JWT_SECRET not set'') =
     fail 500 ''NO_JWT_SECRET'' ''Server misconfigured: JWT_SECRET not set''"
  by (simp add: loginUser_catch_def)

lemma updateUserProfile_catch_jwt:
  "updateUserProfile_catch (Exn None ''Error'' ''JWT_SECRET not set'') =
     fail 500 ''SERVER'' ''Server error''"
  by (simp add: updateUserProfile_catch_def)

lemma registerUser_catch_dup:
  "registerUser_catch duplicate_key = fail 409 ''DUP_EMAIL'' ''Email already registered''"
  by (simp add: registerUser_catch_def duplicate_key_def)

lemma updateUserProfile_catch_dup:
  "updateUserProfile_catch duplicate_key = fail 409 ''DUP_EMAIL'' ''Email already registered''"
  by (simp add: updateUserProfile_catch_def duplicate_key_def)

lemma registerUser_catch_status: "status (registerUser_catch e) \<in> {400, 409, 500}"
  by (simp add: registerUser_catch_def)

lemma registerUser_catch_not_created: "status (registerUser_catch e) \<noteq> 201"
  by (simp add: registerUser_catch_def)

lemma loginUser_catch_status: "status (loginUser_catch e) = 500"
  by (simp add: loginUser_catch_def)

lemma updateUserProfile_catch_status: "status (updateUserProfile_catch e) \<in> {409, 500}"
  by (simp add: updateUserProfile_catch_def)

lemma updateUserProfile_catch_not_ok: "status (updateUserProfile_catch e) \<noteq> 200"
  by (simp add: updateUserProfile_catch_def)

section \<open>Token issuance and the user summary\<close>

lemma sendUser_Inr:
  assumes "sendUser ev u = Inr b"
  shows "hasJwtSecret ev"
    and "b = [(''_id'', JId (uid u)), (''name'', JStr (name u)), (''email'', JStr (email u)),
              (''role'', JStr (role u)), (''profileImageUrl'', JStr (profileImageUrl u)),
              (''token'', JTok (Jwt (uid u) (or_empty (JWT_SECRET ev)) ''7d''))]"
  using assms by (auto simp add: sendUser_def generateToken_def split: if_splits)

lemma sendUser_Inl:
  assumes "sendUser ev u = Inl e"
  shows "\<not> hasJwtSecret ev" and "e = Exn None ''Error'' ''JWT_SECRET not set''"
  using assms by (auto simp add: sendUser_def generateToken_def split: if_splits)

lemma sendUser_no_secret:
  "\<not> hasJwtSecret ev \<Longrightarrow> sendUser ev u = Inl (Exn None ''Error'' ''JWT_SECRET not set'')"
  by (simp add: sendUser_def generateToken_def)

lemma summary_shape:
  assumes "sendUser ev u = Inr b"
  shows "map fst b = [''_id'', ''name'', ''email'', ''role'', ''profileImageUrl'', ''token''] \<and>
         (\<exists>i. map_of b ''_id'' = Some (JId i) \<and>
              map_of b ''token'' = Some (JTok (Jwt i (or_empty (JWT_SECRET ev)) ''7d''))) \<and>
         hasJwtSecret ev \<and> (\<forall>h. JHash h \<notin> snd ` set b)"
  using sendUser_Inr [OF assms] by auto

lemma map_of_summary_code:
  "sendUser ev u = Inr b \<Longrightarrow> map_of b ''code'' = None"
  by (auto dest: sendUser_Inr(2))

lemma hasJwtSecret_update: "hasJwtSecret (ev\<lparr>JWT_SECRET := Some k\<rparr>) = (k \<noteq> [])"
  by (simp add: hasJwtSecret_def truthy_def)

section \<open>Normalised emails\<close>

text \<open>
  \<open>normalizeEmail\<close> is idempotent: lower-casing keeps white space white space, and
  trimming a trimmed string changes nothing.
\<close>

lemma is_space_lower_char: "is_space (lower_char c) = is_space c"
  by (auto simp add: lower_char_def is_space_def Let_def)

lemma lower_char_idem: "lower_char (lower_char c) = lower_char c"
  by (auto simp add: lower_char_def Let_def)

lemma dropWhile_space_lower:
  "dropWhile is_space (map lower_char s) = map lower_char (dropWhile is_space s)"
  by (induction s) (simp_all add: is_space_lower_char)

lemma trim_toLowerCase: "trim (toLowerCase s) = toLowerCase (trim s)"
  by (simp add: trim_def toLowerCase_def dropWhile_space_lower rev_map)

lemma dropWhile_rev_dropWhile_rev:
  assumes "t = [] \<or> \<not> P (hd t)"
  shows "dropWhile P (rev (dropWhile P (rev t))) = rev (dropWhile P (rev t))"
proof (cases t)
  case Nil
  then show ?thesis by simp
next
  case (Cons x xs)
  with assms have nx: "\<not> P x" by simp
  show ?thesis
  proof (cases "dropWhile P (rev xs)")
    case Nil
    then show ?thesis using Cons nx by (simp add: dropWhile_append)
  next
    case c2: (Cons y ys)
    then have "\<not> (\<forall>z\<in>set (rev xs). P z)"
      by (metis dropWhile_eq_Nil_conv list.simps(3))
    then have "dropWhile P (rev (x # xs)) = dropWhile P (rev xs) @ [x]"
      by (auto simp add: dropWhile_append)
    then show ?thesis using Cons nx by simp
  qed
qed

lemma trim_idem: "trim (trim s) = trim s"
proof -
  have "dropWhile is_space s = [] \<or> \<not> is_space (hd (dropWhile is_space s))"
    using hd_dropWhile [of is_space s] by blast
  then show ?thesis
    by (simp add: trim_def dropWhile_rev_dropWhile_rev)
qed

lemma normalizeEmail_idem: "normalizeEmail (Some (normalizeEmail e)) = normalizeEmail e"
  by (simp add: normalizeEmail_def trim_toLowerCase trim_idem)
     (simp add: toLowerCase_def lower_char_idem)

section \<open>Registration\<close>

lemma registerUser_checks_pass:
  assumes "trim (or_empty (r_name req)) \<noteq> []" and "normalizeEmail (r_email req) \<noteq> []"
    and "or_empty (r_password req) \<noteq> []" and "email_regex (normalizeEmail (r_email req))"
    and "6 \<le> length (or_empty (r_password req))"
    and "\<not> (truthy (r_adminInviteToken req) \<and> r_adminInviteToken req \<noteq> ADMIN_INVITE_TOKEN ev)"
    and "\<not> exists_email d (normalizeEmail (r_email req))"
    and "u = \<lparr>uid = new_id d, name = trim (or_empty (r_name req)),
              email = normalizeEmail (r_email req),
              password = bcrypt_hash (or_empty (r_password req)) salt,
              profileImageUrl = or_empty (r_profileImageUrl req),
              role = (if truthy (r_adminInviteToken req) then ''admin'' else ''member'')\<rparr>"
  shows "registerUser ev salt d req =
           (d @ [u], case sendUser ev u of Inl e \<Rightarrow> registerUser_catch e
                                     | Inr b \<Rightarrow> \<lparr>status = 201, body = b\<rparr>)"
  using assms
  by (auto simp add: registerUser_def registerUser_try_def Let_def create_def
      split: sum.splits)

lemma registerUser_created:
  assumes "status (snd (registerUser ev salt d req)) = 201"
  shows "\<exists>u. sendUser ev u = Inr (body (snd (registerUser ev salt d req)))"
proof -
  have "status (registerUser_catch e) \<noteq> 201" for e
    using registerUser_catch_status [of e] by auto
  with assms show ?thesis
    by (auto simp add: registerUser_def registerUser_try_def Let_def
        split: if_splits sum.splits prod.splits)
qed

lemma registerUser_store:
  "fst (registerUser ev salt d req) = d \<or>
   (\<exists>u. fst (registerUser ev salt d req) = d @ [u] \<and> email u = normalizeEmail (r_email req))"
  by (auto simp add: registerUser_def registerUser_try_def Let_def create_def
      split: sum.splits prod.splits)

lemma registerUser_emails_normalized:
  assumes "emails_normalized d"
  shows "emails_normalized (fst (registerUser ev salt d req))"
  using assms registerUser_store [of ev salt d req]
  by (auto simp add: emails_normalized_def normalizeEmail_idem)


lemma registerUser_needs_secret:
  assumes "\<not> hasJwtSecret ev"
    and "status (snd (registerUser (ev\<lparr>JWT_SECRET := Some k\<rparr>) salt d rq)) = 201"
  shows "snd (registerUser ev salt d rq) =
           fail 500 ''NO_JWT_SECRET'' ''Server misconfigured: JWT_SECRET not set''"
  using assms
  by (auto simp add: registerUser_def registerUser_try_def Let_def create_def
      sendUser_no_secret registerUser_catch_jwt registerUser_catch_dup
      split: if_splits sum.splits prod.splits)




text \<open>
  Claim C3, as amended. For every registration request that passes the validation of name,
  email and password and the invite-token check, and every store whose emails are in
  normalised form: if the request's email, trimmed and lower-cased, equals that of a stored
  user compared the same way, the answer is 409 DUP_EMAIL and the store is unchanged. The
  witness registers \<open>A@b.com\<close> against a stored \<open>a@b.com\<close>.
\<close>

theorem C3_register_duplicate_email:
  assumes "trim (or_empty (r_name req)) \<noteq> []" and "normalizeEmail (r_email req) \<noteq> []"
    and "or_empty (r_password req) \<noteq> []" and "email_regex (normalizeEmail (r_email req))"
    and "6 \<le> length (or_empty (r_password req))"
    and "\<not> (truthy (r_adminInviteToken req) \<and> r_adminInviteToken req \<noteq> ADMIN_INVITE_TOKEN ev)"
    and "emails_normalized d"
    and "u \<in> set d" and "normalizeEmail (Some (email u)) = normalizeEmail (r_email req)"
  shows "registerUser ev salt d req = (d, fail 409 ''DUP_EMAIL'' ''Email already registered'')"
proof -
  from assms(7,8) have "normalizeEmail (Some (email u)) = email u"
    by (simp add: emails_normalized_def list_all_iff)
  with assms(8,9) have "exists_email d (normalizeEmail (r_email req))"
    by (auto simp add: exists_email_def list_ex_iff)
  with assms(1-6) show ?thesis
    by (auto simp add: registerUser_def registerUser_try_def Let_def)
qed

theorem C3_register_duplicate_email_witness:
  "registerUser \<lparr>JWT_SECRET = Some ''k'', ADMIN_INVITE_TOKEN = Some ''letmein''\<rparr> 7
      [\<lparr>uid = 0, name = ''Ann'', email = ''a@b.com'', password = bcrypt_hash ''secret1'' 3,
        profileImageUrl = [], role = ''member''\<rparr>]
      \<lparr>r_name = Some ''Bob'', r_email = Some ''A@b.com'', r_password = Some ''hunter22'',
        r_profileImageUrl = None, r_adminInviteToken = None\<rparr>
     = ([\<lparr>uid = 0, name = ''Ann'', email = ''a@b.com'', password = bcrypt_hash ''secret1'' 3,
         profileImageUrl = [], role = ''member''\<rparr>],
        fail 409 ''DUP_EMAIL'' ''Email already registered'')"
proof -
  let ?ev = "\<lparr>JWT_SECRET = Some ''k'', ADMIN_INVITE_TOKEN = Some ''letmein''\<rparr>"
  let ?u = "\<lparr>uid = 0, name = ''Ann'', email = ''a@b.com'', password = bcrypt_hash ''secret1'' 3,
        profileImageUrl = [], role = ''member''\<rparr>"
  let ?rq = "\<lparr>r_name = Some ''Bob'', r_email = Some ''A@b.com'', r_password = Some ''hunter22'',
        r_profileImageUrl = None, r_adminInviteToken = None\<rparr>"
  have 1: "trim (or_empty (r_name ?rq)) \<noteq> []" by code_simp
  have 2: "normalizeEmail (r_email ?rq) \<noteq> []" by code_simp
  have 3: "or_empty (r_password ?rq) \<noteq> []" by code_simp
  have 4: "email_regex (normalizeEmail (r_email ?rq))" by code_simp
  have 5: "6 \<le> length (or_empty (r_password ?rq))" by code_simp
  have 6: "\<not> (truthy (r_adminInviteToken ?rq) \<and> r_adminInviteToken ?rq \<noteq> ADMIN_INVITE_TOKEN ?ev)"
    by code_simp
  have 7: "emails_normalized [?u]" by code_simp
  have 8: "?u \<in> set [?u]" by simp
  have 9: "normalizeEmail (Some (email ?u)) = normalizeEmail (r_email ?rq)" by code_simp
  from C3_register_duplicate_email [OF 1 2 3 4 5 6 7 8 9, of 7]
  show ?thesis .
qed

text \<open>
  The claim as written fails for a request with a registered email that stops at an earlier
  check: with a wrong invite token the answer is 403 BAD_INVITE, with a password of three
  characters it is 400 WEAK_PASSWORD.
\<close>

theorem C3_counterexample:
  "normalizeEmail (Some ''A@b.com'') = ''a@b.com'' \<and>
   registerUser \<lparr>JWT_SECRET = Some ''k'', ADMIN_INVITE_TOKEN = Some ''letmein''\<rparr> 7
      [\<lparr>uid = 0, name = ''Ann'', email = ''a@b.com'', password = bcrypt_hash ''secret1'' 3,
        profileImageUrl = [], role = ''member''\<rparr>]
      \<lparr>r_name = Some ''Bob'', r_email = Some ''A@b.com'', r_password = Some ''hunter22'',
        r_profileImageUrl = None, r_adminInviteToken = Some ''nope''\<rparr>
     = ([\<lparr>uid = 0, name = ''Ann'', email = ''a@b.com'', password = bcrypt_hash ''secret1'' 3,
         profileImageUrl = [], role = ''member''\<rparr>],
        fail 403 ''BAD_INVITE'' ''Invalid admin invite token'') \<and>
   status (snd (registerUser \<lparr>JWT_SECRET = Some ''k'', ADMIN_INVITE_TOKEN = Some ''letmein''\<rparr> 7
      [\<lparr>uid = 0, name = ''Ann'', email = ''a@b.com'', password = bcrypt_hash ''secret1'' 3,
        profileImageUrl = [], role = ''member''\<rparr>]
      \<lparr>r_name = Some ''Bob'', r_email = Some ''A@b.com'', r_password = Some ''abc'',
        r_profileImageUrl = None, r_adminInviteToken = None\<rparr>)) = 400"
  by code_simp


section \<open>Login\<close>

lemma loginUser_missing_fields:
  assumes "normalizeEmail_call (l_email req) = Inr em"
    and "em = [] \<or> \<not> js_truthy (l_password req)"
  shows "loginUser ev d req = fail 400 ''MISSING_FIELDS'' ''Email and password are required''"
  using assms
  by (auto simp add: loginUser_def loginUser_try_def Let_def js_or_empty_def js_truthy_def)

lemma loginUser_email_not_a_string:
  assumes "l_email req \<noteq> VUndefined" and "js_typeof (l_email req) \<noteq> ''string''"
  shows "loginUser ev d req = fail 500 ''SERVER'' ''Server error''"
  using assms
  by (cases "l_email req")
     (simp_all add: loginUser_def loginUser_try_def normalizeEmail_call_def js_typeof_def
       loginUser_catch_def)



text \<open>
  A truthy password that is not a string gets past the check for missing fields and makes
  \<^verbatim>\<open>bcrypt.compare\<close> throw, which only a registered email reaches: the answer is then 500
  SERVER, where an unknown email is answered 401 (lemma \<open>loginUser_unknown_email\<close>).
\<close>

lemma loginUser_password_not_a_string:
  assumes "normalizeEmail_call (l_email req) = Inr em" and "em \<noteq> []"
    and "js_truthy (l_password req)" and "js_typeof (l_password req) \<noteq> ''string''"
    and "findOne d em = Some u"
  shows "loginUser ev d req = fail 500 ''SERVER'' ''Server error''"
  using assms
  by (cases "l_password req")
     (simp_all add: loginUser_def loginUser_try_def Let_def js_or_empty_def js_truthy_def
       js_typeof_def bcrypt_compare_call_def loginUser_catch_def)

lemma loginUser_matching_password:
  assumes "normalizeEmail_call (l_email req) = Inr em" and "em \<noteq> []"
    and "l_password req = VStr p" and "p \<noteq> []"
    and "findOne d em = Some u" and "bcrypt_compare p (password u)"
  shows "loginUser ev d req =
           (case sendUser ev u of Inl e \<Rightarrow> loginUser_catch e
                                | Inr b \<Rightarrow> \<lparr>status = 200, body = b\<rparr>)"
  using assms
  by (simp add: loginUser_def loginUser_try_def Let_def js_or_empty_def js_truthy_def
      bcrypt_compare_call_def split: sum.splits)

lemma bcrypt_compare_first_72_bytes:
  "bcrypt_compare (replicate 72 CHR ''a'' @ ''x'') (bcrypt_hash (replicate 72 CHR ''a'' @ ''y'') salt)"
  unfolding bcrypt_compare_def bcrypt_hash_def by code_simp

lemma loginUser_ok:
  assumes "status (loginUser ev d req) = 200"
  shows "\<exists>u. sendUser ev u = Inr (body (loginUser ev d req))"
  using assms
  by (auto simp add: loginUser_def loginUser_try_def Let_def loginUser_catch_status
      split: if_splits sum.splits option.splits)

lemma loginUser_needs_secret:
  assumes "\<not> hasJwtSecret ev"
    and "status (loginUser (ev\<lparr>JWT_SECRET := Some k\<rparr>) d lq) = 200"
  shows "loginUser ev d lq =
           fail 500 ''NO_JWT_SECRET'' ''Server misconfigured: JWT_SECRET not set''"
  using assms
  by (auto simp add: loginUser_def loginUser_try_def Let_def
      sendUser_no_secret loginUser_catch_jwt loginUser_catch_status
      split: if_splits sum.splits option.splits)

text \<open>
  Claim C10. The claim asks that a login request whose email or password is missing or empty
  be answered 400 MISSING_FIELDS. The handler does so for an absent or empty password, for a
  password of \<^verbatim>\<open>null\<close> and for an absent, empty or blank email (lemma
  \<open>loginUser_missing_fields\<close>), but not for an email of \<^verbatim>\<open>null\<close>: whatever the password,
  \<open>normalizeEmail\<close> throws and the answer is 500 SERVER.
\<close>

theorem C10_login_null_email_is_server_error:
  "loginUser ev d \<lparr>l_email = VNull, l_password = pw\<rparr> = fail 500 ''SERVER'' ''Server error''"
  by (simp add: loginUser_def loginUser_try_def normalizeEmail_call_def loginUser_catch_def)




section \<open>The success response\<close>

text \<open>
  Claim C6. The body of a successful register (status 201) and of a successful login (status
  200) has exactly the keys _id, name, email, role, profileImageUrl and token, in this order;
  the token is signed for that _id with the configured secret and the option expiresIn "7d";
  the key password does not occur and no value is a password hash. Both successes occur:
  with a secret configured, a registration that passes every check is answered 201 with the
  summary of the new user, and a login with the email of a stored user and a password that
  matches the hash is answered 200 with the summary of that user.
\<close>

theorem C6_success_response_shape:
  "(res = snd (registerUser ev salt d rq) \<and> status res = 201 \<or>
    res = loginUser ev dl lq \<and> status res = 200 \<longrightarrow>
      map fst (body res) = [''_id'', ''name'', ''email'', ''role'', ''profileImageUrl'', ''token''] \<and>
      (\<exists>i. map_of (body res) ''_id'' = Some (JId i) \<and>
           map_of (body res) ''token'' = Some (JTok (Jwt i (or_empty (JWT_SECRET ev)) ''7d''))) \<and>
      hasJwtSecret ev \<and> (\<forall>h. JHash h \<notin> snd ` set (body res))) \<and>
   (hasJwtSecret ev \<and>
    trim (or_empty (r_name rq)) \<noteq> [] \<and> normalizeEmail (r_email rq) \<noteq> [] \<and>
    or_empty (r_password rq) \<noteq> [] \<and> email_regex (normalizeEmail (r_email rq)) \<and>
    6 \<le> length (or_empty (r_password rq)) \<and>
    \<not> (truthy (r_adminInviteToken rq) \<and> r_adminInviteToken rq \<noteq> ADMIN_INVITE_TOKEN ev) \<and>
    \<not> exists_email d (normalizeEmail (r_email rq)) \<longrightarrow>
      snd (registerUser ev salt d rq) =
        \<lparr>status = 201,
         body = [(''_id'', JId (new_id d)),
                 (''name'', JStr (trim (or_empty (r_name rq)))),
                 (''email'', JStr (normalizeEmail (r_email rq))),
                 (''role'', JStr (if truthy (r_adminInviteToken rq) then ''admin'' else ''member'')),
                 (''profileImageUrl'', JStr (or_empty (r_profileImageUrl rq))),
                 (''token'', JTok (Jwt (new_id d) (or_empty (JWT_SECRET ev)) ''7d''))]\<rparr>) \<and>
   (hasJwtSecret ev \<and>
    l_email lq = VStr e \<and> normalizeEmail (Some e) \<noteq> [] \<and>
    l_password lq = VStr p \<and> p \<noteq> [] \<and>
    findOne dl (normalizeEmail (Some e)) = Some u \<and> bcrypt_compare p (password u) \<longrightarrow>
      loginUser ev dl lq =
        \<lparr>status = 200,
         body = [(''_id'', JId (uid u)),
                 (''name'', JStr (name u)),
                 (''email'', JStr (email u)),
                 (''role'', JStr (role u)),
                 (''profileImageUrl'', JStr (profileImageUrl u)),
                 (''token'', JTok (Jwt (uid u) (or_empty (JWT_SECRET ev)) ''7d''))]\<rparr>)"
proof (intro conjI impI)
  assume a: "res = snd (registerUser ev salt d rq) \<and> status res = 201 \<or>
             res = loginUser ev dl lq \<and> status res = 200"
  then obtain v where v: "sendUser ev v = Inr (body res)"
    using registerUser_created [of ev salt d rq] loginUser_ok [of ev dl lq] by auto
  from summary_shape [OF v]
  show "map fst (body res) = [''_id'', ''name'', ''email'', ''role'', ''profileImageUrl'', ''token'']"
    and "\<exists>i. map_of (body res) ''_id'' = Some (JId i) \<and>
           map_of (body res) ''token'' = Some (JTok (Jwt i (or_empty (JWT_SECRET ev)) ''7d''))"
    and "hasJwtSecret ev" and "\<forall>h. JHash h \<notin> snd ` set (body res)"
    by blast+
next
  assume a: "hasJwtSecret ev \<and>
    trim (or_empty (r_name rq)) \<noteq> [] \<and> normalizeEmail (r_email rq) \<noteq> [] \<and>
    or_empty (r_password rq) \<noteq> [] \<and> email_regex (normalizeEmail (r_email rq)) \<and>
    6 \<le> length (or_empty (r_password rq)) \<and>
    \<not> (truthy (r_adminInviteToken rq) \<and> r_adminInviteToken rq \<noteq> ADMIN_INVITE_TOKEN ev) \<and>
    \<not> exists_email d (normalizeEmail (r_email rq))"
  then have "registerUser ev salt d rq =
      (d @ [\<lparr>uid = new_id d, name = trim (or_empty (r_name rq)),
              email = normalizeEmail (r_email rq),
              password = bcrypt_hash (or_empty (r_password rq)) salt,
              profileImageUrl = or_empty (r_profileImageUrl rq),
              role = (if truthy (r_adminInviteToken rq) then ''admin'' else ''member'')\<rparr>],
       case sendUser ev \<lparr>uid = new_id d, name = trim (or_empty (r_name rq)),
              email = normalizeEmail (r_email rq),
              password = bcrypt_hash (or_empty (r_password rq)) salt,
              profileImageUrl = or_empty (r_profileImageUrl rq),
              role = (if truthy (r_adminInviteToken rq) then ''admin'' else ''member'')\<rparr> of
         Inl e \<Rightarrow> registerUser_catch e | Inr b \<Rightarrow> \<lparr>status = 201, body = b\<rparr>)"
    by (intro registerUser_checks_pass [OF _ _ _ _ _ _ _ refl]) simp_all
  with a show "snd (registerUser ev salt d rq) =
        \<lparr>status = 201,
         body = [(''_id'', JId (new_id d)),
                 (''name'', JStr (trim (or_empty (r_name rq)))),
                 (''email'', JStr (normalizeEmail (r_email rq))),
                 (''role'', JStr (if truthy (r_adminInviteToken rq) then ''admin'' else ''member'')),
                 (''profileImageUrl'', JStr (or_empty (r_profileImageUrl rq))),
                 (''token'', JTok (Jwt (new_id d) (or_empty (JWT_SECRET ev)) ''7d''))]\<rparr>"
    by (simp add: sendUser_def generateToken_def)
next
  assume a: "hasJwtSecret ev \<and>
    l_email lq = VStr e \<and> normalizeEmail (Some e) \<noteq> [] \<and>
    l_password lq = VStr p \<and> p \<noteq> [] \<and>
    findOne dl (normalizeEmail (Some e)) = Some u \<and> bcrypt_compare p (password u)"
  then have "normalizeEmail_call (l_email lq) = Inr (normalizeEmail (Some e))"
    by (simp add: normalizeEmail_call_def)
  from loginUser_matching_password [OF this, of p dl u ev] a
  show "loginUser ev dl lq =
        \<lparr>status = 200,
         body = [(''_id'', JId (uid u)),
                 (''name'', JStr (name u)),
                 (''email'', JStr (email u)),
                 (''role'', JStr (role u)),
                 (''profileImageUrl'', JStr (profileImageUrl u)),
                 (''token'', JTok (Jwt (uid u) (or_empty (JWT_SECRET ev)) ''7d''))]\<rparr>"
    by (simp add: sendUser_def generateToken_def)
qed

theorem C6_success_response_shape_witness:
  "registerUser \<lparr>JWT_SECRET = Some ''k'', ADMIN_INVITE_TOKEN = Some ''letmein''\<rparr> 7 []
      \<lparr>r_name = Some ''Ann'', r_email = Some ''A@b.com'', r_password = Some ''secret1'',
        r_profileImageUrl = None, r_adminInviteToken = None\<rparr>
     = ([\<lparr>uid = 0, name = ''Ann'', email = ''a@b.com'', password = bcrypt_hash ''secret1'' 7,
          profileImageUrl = [], role = ''member''\<rparr>],
        \<lparr>status = 201,
         body = [(''_id'', JId 0), (''name'', JStr ''Ann''), (''email'', JStr ''a@b.com''),
                 (''role'', JStr ''member''), (''profileImageUrl'', JStr []),
                 (''token'', JTok (Jwt 0 ''k'' ''7d''))]\<rparr>) \<and>
   loginUser \<lparr>JWT_SECRET = Some ''k'', ADMIN_INVITE_TOKEN = Some ''letmein''\<rparr>
      [\<lparr>uid = 0, name = ''Ann'', email = ''a@b.com'', password = bcrypt_hash ''secret1'' 7,
        profileImageUrl = [], role = ''member''\<rparr>]
      \<lparr>l_email = VStr '' A@b.com'', l_password = VStr ''secret1''\<rparr>
     = \<lparr>status = 200,
        body = [(''_id'', JId 0), (''name'', JStr ''Ann''), (''email'', JStr ''a@b.com''),
                (''role'', JStr ''member''), (''profileImageUrl'', JStr []),
                (''token'', JTok (Jwt 0 ''k'' ''7d''))]\<rparr> \<and>
   map fst (body (loginUser \<lparr>JWT_SECRET = Some ''k'', ADMIN_INVITE_TOKEN = Some ''letmein''\<rparr>
      [\<lparr>uid = 0, name = ''Ann'', email = ''a@b.com'', password = bcrypt_hash ''secret1'' 7,
        profileImageUrl = [], role = ''member''\<rparr>]
      \<lparr>l_email = VStr '' A@b.com'', l_password = VStr ''secret1''\<rparr>))
     = [''_id'', ''name'', ''email'', ''role'', ''profileImageUrl'', ''token'']"
proof -
  let ?ev = "\<lparr>JWT_SECRET = Some ''k'', ADMIN_INVITE_TOKEN = Some ''letmein''\<rparr>"
  let ?rq = "\<lparr>r_name = Some ''Ann'', r_email = Some ''A@b.com'', r_password = Some ''secret1'',
        r_profileImageUrl = None, r_adminInviteToken = None\<rparr>"
  let ?u = "\<lparr>uid = 0, name = ''Ann'', email = ''a@b.com'', password = bcrypt_hash ''secret1'' 7,
        profileImageUrl = [], role = ''member''\<rparr>"
  let ?lq = "\<lparr>l_email = VStr '' A@b.com'', l_password = VStr ''secret1''\<rparr>"
  note C6 = C6_success_response_shape [where res = "loginUser ?ev [?u] ?lq" and ev = ?ev
      and salt = 7 and d = "[]" and rq = ?rq and dl = "[?u]" and lq = ?lq
      and e = "'' A@b.com''" and p = "''secret1''" and u = ?u]
  have r: "hasJwtSecret ?ev \<and>
    trim (or_empty (r_name ?rq)) \<noteq> [] \<and> normalizeEmail (r_email ?rq) \<noteq> [] \<and>
    or_empty (r_password ?rq) \<noteq> [] \<and> email_regex (normalizeEmail (r_email ?rq)) \<and>
    6 \<le> length (or_empty (r_password ?rq)) \<and>
    \<not> (truthy (r_adminInviteToken ?rq) \<and> r_adminInviteToken ?rq \<noteq> ADMIN_INVITE_TOKEN ?ev) \<and>
    \<not> exists_email [] (normalizeEmail (r_email ?rq))" by code_simp
  have l: "hasJwtSecret ?ev \<and>
    l_email ?lq = VStr '' A@b.com'' \<and> normalizeEmail (Some '' A@b.com'') \<noteq> [] \<and>
    l_password ?lq = VStr ''secret1'' \<and> ''secret1'' \<noteq> [] \<and>
    findOne [?u] (normalizeEmail (Some '' A@b.com'')) = Some ?u \<and>
    bcrypt_compare ''secret1'' (password ?u)" by code_simp
  have s: "fst (registerUser ?ev 7 [] ?rq) = [?u]" by code_simp
  have v: "new_id [] = 0" "trim (or_empty (r_name ?rq)) = ''Ann''"
    "normalizeEmail (r_email ?rq) = ''a@b.com''" "or_empty (r_profileImageUrl ?rq) = []"
    "\<not> truthy (r_adminInviteToken ?rq)" by code_simp+
  from C6 r have 1: "snd (registerUser ?ev 7 [] ?rq) =
      \<lparr>status = 201,
       body = [(''_id'', JId 0), (''name'', JStr ''Ann''), (''email'', JStr ''a@b.com''),
               (''role'', JStr ''member''), (''profileImageUrl'', JStr []),
               (''token'', JTok (Jwt 0 ''k'' ''7d''))]\<rparr>"
    unfolding v by (simp add: or_empty_def)
  from C6 l have 2: "loginUser ?ev [?u] ?lq =
      \<lparr>status = 200,
       body = [(''_id'', JId 0), (''name'', JStr ''Ann''), (''email'', JStr ''a@b.com''),
               (''role'', JStr ''member''), (''profileImageUrl'', JStr []),
               (''token'', JTok (Jwt 0 ''k'' ''7d''))]\<rparr>"
    by (simp add: or_empty_def)
  from 2 have "status (loginUser ?ev [?u] ?lq) = 200" by simp
  with C6 have 3: "map fst (body (loginUser ?ev [?u] ?lq)) =
      [''_id'', ''name'', ''email'', ''role'', ''profileImageUrl'', ''token'']"
    by blast
  from 1 2 3 s show ?thesis by (simp add: prod_eq_iff)
qed

section \<open>Profile update\<close>



lemma assigned_email_normalized:
  assumes "normalizeEmail (Some (email u)) = email u"
  shows "normalizeEmail (Some (email (assign_password salt req
           (assign_image req (assign_email req (assign_name req u)))))) =
         email (assign_password salt req (assign_image req (assign_email req (assign_name req u))))"
  using assms
  by (simp add: assign_password_def assign_image_def assign_email_def assign_name_def
      normalizeEmail_idem split: option.splits)




lemma updateUserProfile_store:
  "fst (updateUserProfile ev salt d i req) = d \<or>
   (\<exists>u0. findById d i = Some u0 \<and>
      fst (updateUserProfile ev salt d i req) =
        map (\<lambda>v. if uid v = i
                  then assign_password salt req (assign_image req (assign_email req (assign_name req u0)))
                  else v) d)"
proof (cases "findById d i")
  case None
  then show ?thesis
    by (simp add: updateUserProfile_def updateUserProfile_try_def)
next
  case (Some u0)
  then have "uid u0 = i"
    by (auto simp add: findById_def find_Some_iff)
  then have "uid (assign_password salt req (assign_image req (assign_email req (assign_name req u0)))) = i"
    by (simp add: assign_password_def assign_image_def assign_email_def assign_name_def
        split: option.splits)
  with Some show ?thesis
    by (auto simp add: updateUserProfile_def updateUserProfile_try_def Let_def save_def
        split: sum.splits prod.splits)
qed

lemma updateUserProfile_emails_normalized:
  assumes "emails_normalized d"
  shows "emails_normalized (fst (updateUserProfile ev salt d i req))"
proof -
  from updateUserProfile_store [of ev salt d i req] show ?thesis
  proof
    assume "fst (updateUserProfile ev salt d i req) = d"
    with assms show ?thesis by simp
  next
    assume "\<exists>u0. findById d i = Some u0 \<and>
      fst (updateUserProfile ev salt d i req) =
        map (\<lambda>v. if uid v = i
                  then assign_password salt req (assign_image req (assign_email req (assign_name req u0)))
                  else v) d"
    then obtain u0 where f: "findById d i = Some u0"
      and e: "fst (updateUserProfile ev salt d i req) =
        map (\<lambda>v. if uid v = i
                  then assign_password salt req (assign_image req (assign_email req (assign_name req u0)))
                  else v) d" by blast
    from f have "u0 \<in> set d"
      by (auto simp add: findById_def find_Some_iff)
    with assms have "normalizeEmail (Some (email u0)) = email u0"
      by (simp add: emails_normalized_def list_all_iff)
    from assigned_email_normalized [OF this, of salt req] assms show ?thesis
      unfolding e by (auto simp add: emails_normalized_def list_all_iff)
  qed
qed




text \<open>
  Claim C9. A profile update answered with WEAK_PASSWORD or DUP_EMAIL leaves the store as
  it was: both answers are given before \<open>save\<close>, or by a \<open>save\<close> that refused to write.
\<close>

theorem C9_update_atomic_on_validation_failure:
  assumes "map_of (body (snd (updateUserProfile ev salt d i req))) ''code'' = Some (JStr ''WEAK_PASSWORD'') \<or>
           map_of (body (snd (updateUserProfile ev salt d i req))) ''code'' = Some (JStr ''DUP_EMAIL'')"
  shows "fst (updateUserProfile ev salt d i req) = d"
  using assms
  by (auto simp add: updateUserProfile_def updateUserProfile_try_def Let_def
      updateUserProfile_catch_jwt map_of_summary_code
      split: if_splits sum.splits prod.splits option.splits
      dest!: sendUser_Inl(2))

theorem C9_update_atomic_on_validation_failure_witness:
  "map_of (body (snd (updateUserProfile \<lparr>JWT_SECRET = Some ''k'', ADMIN_INVITE_TOKEN = None\<rparr> 7
      [\<lparr>uid = 0, name = ''Ann'', email = ''a@b.com'', password = bcrypt_hash ''secret1'' 3,
        profileImageUrl = [], role = ''member''\<rparr>] 0
      \<lparr>u_name = Some ''Anna'', u_email = Some ''anna@x.io'', u_profileImageUrl = Some ''/uploads/a.png'',
        u_password = Some ''abc''\<rparr>))) ''code'' = Some (JStr ''WEAK_PASSWORD'') \<and>
   fst (updateUserProfile \<lparr>JWT_SECRET = Some ''k'', ADMIN_INVITE_TOKEN = None\<rparr> 7
      [\<lparr>uid = 0, name = ''Ann'', email = ''a@b.com'', password = bcrypt_hash ''secret1'' 3,
        profileImageUrl = [], role = ''member''\<rparr>] 0
      \<lparr>u_name = Some ''Anna'', u_email = Some ''anna@x.io'', u_profileImageUrl = Some ''/uploads/a.png'',
        u_password = Some ''abc''\<rparr>)
     = [\<lparr>uid = 0, name = ''Ann'', email = ''a@b.com'', password = bcrypt_hash ''secret1'' 3,
         profileImageUrl = [], role = ''member''\<rparr>]"
proof -
  let ?ev = "\<lparr>JWT_SECRET = Some ''k'', ADMIN_INVITE_TOKEN = None\<rparr>"
  let ?ann = "\<lparr>uid = 0, name = ''Ann'', email = ''a@b.com'', password = bcrypt_hash ''secret1'' 3,
        profileImageUrl = [], role = ''member''\<rparr>"
  let ?req = "\<lparr>u_name = Some ''Anna'', u_email = Some ''anna@x.io'',
        u_profileImageUrl = Some ''/uploads/a.png'', u_password = Some ''abc''\<rparr>"
  have h: "map_of (body (snd (updateUserProfile ?ev 7 [?ann] 0 ?req))) ''code''
             = Some (JStr ''WEAK_PASSWORD'')" by code_simp
  from C9_update_atomic_on_validation_failure [OF disjI1, OF h] h
  show ?thesis by simp
qed

section \<open>A missing signing secret\<close>

text \<open>
  Claim C5, as amended. While the token-signing secret is not configured (unset or empty), a
  register or login request that would succeed with a secret configured fails with status
  500 and code NO_JWT_SECRET.
\<close>

theorem C5_missing_secret_is_server_error:
  assumes "\<not> hasJwtSecret ev"
  shows "(status (snd (registerUser (ev\<lparr>JWT_SECRET := Some k\<rparr>) salt d rq)) = 201 \<longrightarrow>
            snd (registerUser ev salt d rq) =
              fail 500 ''NO_JWT_SECRET'' ''Server misconfigured: JWT_SECRET not set'') \<and>
         (status (loginUser (ev\<lparr>JWT_SECRET := Some k\<rparr>) dl lq) = 200 \<longrightarrow>
            loginUser ev dl lq =
              fail 500 ''NO_JWT_SECRET'' ''Server misconfigured: JWT_SECRET not set'')"
  using registerUser_needs_secret [OF assms, of k salt d rq]
    loginUser_needs_secret [OF assms, of k dl lq]
  by blast

theorem C5_missing_secret_is_server_error_witness:
  "\<not> hasJwtSecret \<lparr>JWT_SECRET = None, ADMIN_INVITE_TOKEN = None\<rparr> \<and>
   status (snd (registerUser \<lparr>JWT_SECRET = Some ''k'', ADMIN_INVITE_TOKEN = None\<rparr> 7 []
      \<lparr>r_name = Some ''Ann'', r_email = Some ''ann@x.io'', r_password = Some ''secret1'',
        r_profileImageUrl = None, r_adminInviteToken = None\<rparr>)) = 201 \<and>
   snd (registerUser \<lparr>JWT_SECRET = None, ADMIN_INVITE_TOKEN = None\<rparr> 7 []
      \<lparr>r_name = Some ''Ann'', r_email = Some ''ann@x.io'', r_password = Some ''secret1'',
        r_profileImageUrl = None, r_adminInviteToken = None\<rparr>)
     = fail 500 ''NO_JWT_SECRET'' ''Server misconfigured: JWT_SECRET not set'' \<and>
   status (loginUser \<lparr>JWT_SECRET = Some ''k'', ADMIN_INVITE_TOKEN = None\<rparr>
      [\<lparr>uid = 0, name = ''Ann'', email = ''ann@x.io'', password = bcrypt_hash ''secret1'' 7,
        profileImageUrl = [], role = ''member''\<rparr>]
      \<lparr>l_email = VStr ''ann@x.io'', l_password = VStr ''secret1''\<rparr>) = 200 \<and>
   loginUser \<lparr>JWT_SECRET = None, ADMIN_INVITE_TOKEN = None\<rparr>
      [\<lparr>uid = 0, name = ''Ann'', email = ''ann@x.io'', password = bcrypt_hash ''secret1'' 7,
        profileImageUrl = [], role = ''member''\<rparr>]
      \<lparr>l_email = VStr ''ann@x.io'', l_password = VStr ''secret1''\<rparr>
     = fail 500 ''NO_JWT_SECRET'' ''Server misconfigured: JWT_SECRET not set''"
proof -
  let ?ev = "\<lparr>JWT_SECRET = None, ADMIN_INVITE_TOKEN = None\<rparr>"
  let ?rq = "\<lparr>r_name = Some ''Ann'', r_email = Some ''ann@x.io'', r_password = Some ''secret1'',
        r_profileImageUrl = None, r_adminInviteToken = None\<rparr>"
  let ?u = "\<lparr>uid = 0, name = ''Ann'', email = ''ann@x.io'', password = bcrypt_hash ''secret1'' 7,
        profileImageUrl = [], role = ''member''\<rparr>"
  let ?lq = "\<lparr>l_email = VStr ''ann@x.io'', l_password = VStr ''secret1''\<rparr>"
  have h: "\<not> hasJwtSecret ?ev" by code_simp
  have e: "?ev\<lparr>JWT_SECRET := Some ''k''\<rparr> = \<lparr>JWT_SECRET = Some ''k'', ADMIN_INVITE_TOKEN = None\<rparr>"
    by simp
  have s: "status (snd (registerUser (?ev\<lparr>JWT_SECRET := Some ''k''\<rparr>) 7 [] ?rq)) = 201"
    unfolding e by code_simp
  have t: "status (loginUser (?ev\<lparr>JWT_SECRET := Some ''k''\<rparr>) [?u] ?lq) = 200"
    unfolding e by code_simp
  from C5_missing_secret_is_server_error [OF h, where k = "''k''" and salt = 7 and d = "[]"
      and rq = ?rq and dl = "[?u]" and lq = ?lq] s t h
  show ?thesis unfolding e by blast
qed

text \<open>
  The claim as written fails on a valid registration and on a login with the right password,
  both handled without a secret: the status is 500, not 401.
\<close>

theorem C5_counterexample:
  "\<not> hasJwtSecret \<lparr>JWT_SECRET = None, ADMIN_INVITE_TOKEN = None\<rparr> \<and>
   status (snd (registerUser \<lparr>JWT_SECRET = None, ADMIN_INVITE_TOKEN = None\<rparr> 7 []
      \<lparr>r_name = Some ''Ann'', r_email = Some ''ann@x.io'', r_password = Some ''secret1'',
        r_profileImageUrl = None, r_adminInviteToken = None\<rparr>)) = 500 \<and>
   status (loginUser \<lparr>JWT_SECRET = None, ADMIN_INVITE_TOKEN = None\<rparr>
      [\<lparr>uid = 0, name = ''Ann'', email = ''ann@x.io'', password = bcrypt_hash ''secret1'' 7,
        profileImageUrl = [], role = ''member''\<rparr>]
      \<lparr>l_email = VStr ''ann@x.io'', l_password = VStr ''secret1''\<rparr>) = 500"
  by code_simp

section \<open>Checklist progress is the rounded percentage\<close>

lemma round_half_up_div:
  assumes "0 < t"
  shows "round (100 * real d / real t) = int ((200 * d + t) div (2 * t))"
proof -
  have "100 * real d / real t + 1 / 2 = real (200 * d + t) / real (2 * t)"
    using assms by (simp add: field_simps)
  then have "round (100 * real d / real t) = \<lfloor>real (200 * d + t) / real (2 * t)\<rfloor>"
    by (simp add: round_def)
  also have "\<dots> = int ((200 * d + t) div (2 * t))"
    by (simp only: floor_divide_of_nat_eq)
  finally show ?thesis .
qed

text \<open>
  Claim C4. For every list of checklist items, the progress is 0 when the list is empty, and
  otherwise the real number 100 \<times> done / total rounded to the nearest integer.
\<close>

theorem C4_progress_is_rounded_percentage:
  "int (progress items) =
     (if length items = 0 then 0
      else round (100 * real (done_count items) / real (length items)))"
  using round_half_up_div [of "length items" "done_count items"]
  by (simp add: progress_def Let_def)

end
